theory Spec2Isabelle
  imports Main
begin

section \<open>Data model\<close>

text \<open>
  The records follow the interfaces the TypeScript sources use. A field that the
  TypeScript type marks optional, or that the code tests for presence, is an
  \<open>option\<close>. Field names carry a prefix where two interfaces share a name.
\<close>

type_synonym token_response = string
type_synonym msi_credentials = string

record ITokenAndCredentials =
  token :: token_response
  loginCreds :: msi_credentials
  expiresOn :: int

record SubscriptionContract =
  sub_name :: "string option"
  sub_userId :: string
  sub_productId :: string
  sub_state :: string
  sub_displayName :: "string option"
  sub_primaryKey :: string
  sub_secondaryKey :: string

record SubscriptionCreateParameters =
  new_displayName :: string
  new_productId :: string
  new_state :: string
  new_userId :: string

record UserContract =
  user_id :: "string option"
  user_name :: "string option"
  user_email :: "string option"
  user_firstName :: "string option"
  user_lastName :: "string option"

text \<open>\<open>UserContract & { id: string; name: string }\<close>: a user whose id and name are known.\<close>

record ApimUser =
  apim_id :: string
  apim_name :: string
  apim_contract :: UserContract

record GroupContract =
  group_name :: "string option"
  group_displayName :: string

record ProductContract =
  product_id :: "string option"
  product_displayName :: string

record IUserData =
  ud_email :: "string option"
  ud_firstName :: string
  ud_lastName :: string
  ud_oid :: string
  ud_productName :: string
  ud_groups :: "string list"

record IProfile =
  emails :: "string list"
  given_name :: string
  family_name :: string
  oid :: string
  extension_Department :: "string option"
  extension_Organization :: "string option"
  extension_Service :: "string option"

record Service =
  authorized_cidrs :: "string list"
  authorized_recipients :: "string list"
  department_name :: string
  organization_fiscal_code :: string
  organization_name :: string
  service_id :: string
  service_name :: string

record Message =
  markdown :: string
  subject :: string

record config =
  apimUserGroups :: "string option"
  apimProductName :: string
  adminApiKey :: string
  apimUrl :: string

section \<open>Promises, remote calls and the process state\<close>

text \<open>
  An awaited promise either rejects (the \<open>await\<close> throws) or resolves to a value.
\<close>

datatype 'a promise = Rejected string | Resolved 'a

text \<open>
  Every call that leaves the process is recorded, with its arguments, in the order of
  issue. \<open>config.azurermResourceGroup\<close> and \<open>config.azurermApim\<close> are process
  constants passed unchanged to every API management call and are left out.
\<close>

datatype call =
    LoginWithAppServiceMSI
  | GetToken msi_credentials
  | SubscriptionGet string
  | SubscriptionRegeneratePrimaryKey string
  | SubscriptionRegenerateSecondaryKey string
  | SubscriptionCreateOrUpdate string SubscriptionCreateParameters
  | UserSubscriptionList string
  | UserListByService string
  | ProductGet string
  | UserGroupList string
  | GroupUserCreate string string
  | CreateFakeProfile string "string option"
  | UpsertService string Service
  | SendMessage string string Message

text \<open>
  The state a function of the process runs in: \<open>ext\<close> is everything outside the
  process (the API management backend, the identity provider, the downstream services,
  the wall clock and the random source), of an arbitrary type \<open>'e\<close>; \<open>calls\<close> is the
  trace of calls issued so far; \<open>apimUserCache\<close> is the module-level object of
  \<^verbatim>\<open>apim_operations.ts\<close>: its own properties, a map from emails to the users stored
  under them (what it inherits from \<open>Object.prototype\<close> is in \<open>apimUserCache_get\<close> below).
\<close>

record 'e world =
  ext :: 'e
  calls :: "call list"
  apimUserCache :: "string \<rightharpoonup> ApimUser"

text \<open>
  The collaborators: how the outside answers each call, from its state, and what state
  it is in afterwards. Nothing is assumed about them. \<open>getToken_cb\<close> is
  \<open>loginCreds.getToken\<close>, whose callback's \<open>(err, tok)\<close> is the promise's outcome.
\<close>

record 'e env =
  Date_now :: "'e \<Rightarrow> int"
  ulid :: "'e \<Rightarrow> string \<times> 'e"
  loginWithAppServiceMSI :: "'e \<Rightarrow> msi_credentials promise \<times> 'e"
  getToken_cb :: "msi_credentials \<Rightarrow> 'e \<Rightarrow> token_response promise \<times> 'e"
  subscription_get :: "string \<Rightarrow> 'e \<Rightarrow> SubscriptionContract promise \<times> 'e"
  subscription_regeneratePrimaryKey :: "string \<Rightarrow> 'e \<Rightarrow> unit promise \<times> 'e"
  subscription_regenerateSecondaryKey :: "string \<Rightarrow> 'e \<Rightarrow> unit promise \<times> 'e"
  subscription_createOrUpdate ::
    "string \<Rightarrow> SubscriptionCreateParameters \<Rightarrow> 'e \<Rightarrow> SubscriptionContract promise \<times> 'e"
  userSubscription_list :: "string \<Rightarrow> 'e \<Rightarrow> SubscriptionContract list promise \<times> 'e"
  user_listByService :: "string \<Rightarrow> 'e \<Rightarrow> UserContract list option promise \<times> 'e"
  product_get :: "string \<Rightarrow> 'e \<Rightarrow> ProductContract option promise \<times> 'e"
  userGroup_list :: "string \<Rightarrow> 'e \<Rightarrow> GroupContract list promise \<times> 'e"
  groupUser_create :: "string \<Rightarrow> string \<Rightarrow> 'e \<Rightarrow> unit promise \<times> 'e"
  createFakeProfile :: "string \<Rightarrow> string option \<Rightarrow> 'e \<Rightarrow> string promise \<times> 'e"
  upsertService :: "string \<Rightarrow> Service \<Rightarrow> 'e \<Rightarrow> unit promise \<times> 'e"
  sendMessage :: "string \<Rightarrow> string \<Rightarrow> Message \<Rightarrow> 'e \<Rightarrow> unit promise \<times> 'e"

type_synonym ('e, 'a) async = "'e world \<Rightarrow> 'a promise \<times> 'e world"

definition resolve :: "'a \<Rightarrow> ('e, 'a) async" where
  "resolve x w = (Resolved x, w)"

text \<open>\<open>const x = await m; k x\<close>: a rejection of \<open>m\<close> ends the function with it.\<close>

definition await :: "('e, 'a) async \<Rightarrow> ('a \<Rightarrow> ('e, 'c) async) \<Rightarrow> ('e, 'c) async" where
  "await m k w = (case m w of (Rejected err, w') \<Rightarrow> (Rejected err, w') | (Resolved x, w') \<Rightarrow> k x w')"

text \<open>A call to the outside: it is appended to the trace and the outside moves on.\<close>

definition remote :: "call \<Rightarrow> ('e \<Rightarrow> 'a promise \<times> 'e) \<Rightarrow> ('e, 'a) async" where
  "remote c f w = (case f (ext w) of (r, e') \<Rightarrow> (r, w\<lparr>ext := e', calls := calls w @ [c]\<rparr>))"

text \<open>A synchronous read of the outside that cannot fail (\<open>ulid()\<close>).\<close>

definition draw :: "('e \<Rightarrow> 'a \<times> 'e) \<Rightarrow> ('e, 'a) async" where
  "draw f w = (case f (ext w) of (x, e') \<Rightarrow> (Resolved x, w\<lparr>ext := e'\<rparr>))"

text \<open>JavaScript's \<open>!s\<close> on an optional string: \<open>undefined\<close> and \<open>""\<close> are falsy.\<close>

definition falsy :: "string option \<Rightarrow> bool" where
  "falsy s = (case s of None \<Rightarrow> True | Some v \<Rightarrow> v = [])"

section \<open>\<^verbatim>\<open>apim_operations.ts\<close>\<close>

definition getToken :: "'e env \<Rightarrow> msi_credentials \<Rightarrow> ('e, token_response) async" where
  "getToken env lc = remote (GetToken lc) (getToken_cb env lc)"

text \<open>
  \<open>loginToApim\<close>. The \<open>logger.debug\<close> calls (here and below) have no effect on the
  result and are left out. \<open>Date.now()\<close> is read once for the expiry test and once
  more, after both awaits, for the new expiry.
\<close>

definition loginToApim ::
  "'e env \<Rightarrow> ITokenAndCredentials option \<Rightarrow> ('e, ITokenAndCredentials) async" where
  "loginToApim env tokenCreds w =
     (let isTokenExpired =
            (case tokenCreds of Some tc \<Rightarrow> expiresOn tc \<le> Date_now env (ext w) | None \<Rightarrow> False)
      in case (tokenCreds, isTokenExpired) of
           (Some tc, False) \<Rightarrow> resolve tc w
         | _ \<Rightarrow>
             await (remote LoginWithAppServiceMSI (loginWithAppServiceMSI env)) (\<lambda>lc.
             await (getToken env lc) (\<lambda>tok w'.
               resolve \<lparr>token = tok, loginCreds = lc,
                        expiresOn = Date_now env (ext w') + 3600 * 1000\<rparr> w')) w)"

definition getUserSubscription ::
  "'e env \<Rightarrow> string \<Rightarrow> string \<Rightarrow> ('e, SubscriptionContract option) async" where
  "getUserSubscription env subscriptionId userId =
     await (remote (SubscriptionGet subscriptionId) (subscription_get env subscriptionId))
       (\<lambda>subscription.
          if sub_userId subscription \<noteq> userId \<or> falsy (sub_name subscription)
          then resolve None
          else resolve (Some subscription))"

definition getUserSubscriptions ::
  "'e env \<Rightarrow> string \<Rightarrow> ('e, SubscriptionContract list) async" where
  "getUserSubscriptions env userId =
     remote (UserSubscriptionList userId) (userSubscription_list env userId)"

definition regeneratePrimaryKey ::
  "'e env \<Rightarrow> string \<Rightarrow> string \<Rightarrow> ('e, SubscriptionContract option) async" where
  "regeneratePrimaryKey env subscriptionId userId =
     await (getUserSubscription env subscriptionId userId) (\<lambda>maybeSubscription.
       if maybeSubscription = None then resolve None
       else await (remote (SubscriptionRegeneratePrimaryKey subscriptionId)
                     (subscription_regeneratePrimaryKey env subscriptionId))
              (\<lambda>_. getUserSubscription env subscriptionId userId))"

definition regenerateSecondaryKey ::
  "'e env \<Rightarrow> string \<Rightarrow> string \<Rightarrow> ('e, SubscriptionContract option) async" where
  "regenerateSecondaryKey env subscriptionId userId =
     await (getUserSubscription env subscriptionId userId) (\<lambda>maybeSubscription.
       if maybeSubscription = None then resolve None
       else await (remote (SubscriptionRegenerateSecondaryKey subscriptionId)
                     (subscription_regenerateSecondaryKey env subscriptionId))
              (\<lambda>_. getUserSubscription env subscriptionId userId))"

text \<open>The timer of the module: \<open>apimUserCache = {}\<close> every 600 seconds.\<close>

definition emptyUserCache :: "'e world \<Rightarrow> 'e world" where
  "emptyUserCache w = w\<lparr>apimUserCache := Map.empty\<rparr>"

text \<open>The filter of the query: \<open>"email eq '" + email + "'"\<close>.\<close>

definition email_filter :: "string \<Rightarrow> string" where
  "email_filter email = ''email eq '' @ [CHR 0x27] @ email @ [CHR 0x27]"

text \<open>
  The object \<open>getApimUser\<close> hands back inside \<open>some\<close>: a user with its id and name, or
  the empty object \<open>{}\<close>.
\<close>

datatype user_object = User ApimUser | Empty_object

text \<open>
  The names of the properties of \<open>Object.prototype\<close>, which the object literal \<open>{}\<close>
  inherits. Each is a function, but \<open>__proto__\<close>, which reads as the prototype itself.
\<close>

definition Object_prototype_keys :: "string list" where
  "Object_prototype_keys =
     [''constructor'', ''__defineGetter__'', ''__defineSetter__'', ''hasOwnProperty'',
      ''__lookupGetter__'', ''__lookupSetter__'', ''isPrototypeOf'', ''propertyIsEnumerable'',
      ''toString'', ''valueOf'', ''__proto__'', ''toLocaleString'']"

text \<open>
  \<open>apimUserCache[email] ? { ...apimUserCache[email] } : undefined\<close>. A stored entry is an
  object, hence truthy, and its spread is a copy of it. Where nothing is stored, the read
  falls through to \<open>Object.prototype\<close>: an inherited property is truthy too, and has no
  enumerable property of its own, so that its spread is \<open>{}\<close>, itself truthy. Any other
  read is \<open>undefined\<close>.
\<close>

definition apimUserCache_get :: "(string \<rightharpoonup> ApimUser) \<Rightarrow> string \<Rightarrow> user_object option" where
  "apimUserCache_get cache email =
     (case cache email of
        Some stored \<Rightarrow> Some (User stored)
      | None \<Rightarrow> if email \<in> set Object_prototype_keys then Some Empty_object else None)"

text \<open>
  \<open>getApimUser\<close>. \<open>{ id: user.id, name: user.name, ...user }\<close> is the top result with
  its id and name, both known to be non-empty strings at that point. The store
  \<open>apimUserCache[email] = ...\<close> is reached only after a read of that key gave \<open>undefined\<close>,
  so it is never a store under an inherited name.
\<close>

definition getApimUser :: "'e env \<Rightarrow> string \<Rightarrow> ('e, user_object option) async" where
  "getApimUser env email w =
     (case apimUserCache_get (apimUserCache w) email of
        Some cachedUser \<Rightarrow> resolve (Some cachedUser) w
      | None \<Rightarrow>
          await (remote (UserListByService (email_filter email))
                   (user_listByService env (email_filter email)))
            (\<lambda>results.
               case results of
                 None \<Rightarrow> resolve None
               | Some [] \<Rightarrow> resolve None
               | Some (user # _) \<Rightarrow>
                   if falsy (user_id user) \<or> falsy (user_name user) then resolve None
                   else (\<lambda>w'.
                     let apimUser = \<lparr>apim_id = the (user_id user), apim_name = the (user_name user),
                                      apim_contract = user\<rparr>
                     in resolve (Some (User apimUser))
                          (w'\<lparr>apimUserCache := (apimUserCache w')(email \<mapsto> apimUser)\<rparr>))) w)"


text \<open>
  The callback of \<open>groups.reduce\<close> in \<open>addUserToGroups\<close>: it awaits the promise of the
  groups added so far, then the create call, and returns the list extended.
\<close>

definition addGroup ::
  "'e env \<Rightarrow> string \<Rightarrow> ('e, string list) async \<Rightarrow> string \<Rightarrow> ('e, string list) async" where
  "addGroup env userName prev grp =
     await prev (\<lambda>addedGroups.
     await (remote (GroupUserCreate grp userName) (groupUser_create env grp userName))
       (\<lambda>_. resolve (addedGroups @ [grp])))"

definition addUserToGroups ::
  "'e env \<Rightarrow> UserContract option \<Rightarrow> string list \<Rightarrow> ('e, string + string list) async" where
  "addUserToGroups env user groups =
     (case user of
        None \<Rightarrow> resolve (Inl ''Cannot parse user'')
      | Some u \<Rightarrow>
          if falsy (user_name u) then resolve (Inl ''Cannot parse user'')
          else
            await (remote (UserGroupList (the (user_name u))) (userGroup_list env (the (user_name u))))
              (\<lambda>existingGroups.
                 let existingGroupsNames = set (map group_name existingGroups);
                     missingGroups = set (filter (\<lambda>g. Some g \<notin> existingGroupsNames) groups)
                 in if card missingGroups = 0 then resolve (Inr [])
                    else await (foldl (addGroup env (the (user_name u))) (resolve []) groups)
                           (\<lambda>added. resolve (Inr added))))"

section \<open>The orchestrator (\<open>assignUserToProducts\<close>)\<close>

text \<open>\<open>s.split(sep)\<close> for a one-character separator: \<open>"".split(",")\<close> is \<open>[""]\<close>.\<close>

fun split :: "char \<Rightarrow> string \<Rightarrow> string list" where
  "split sep [] = [[]]"
| "split sep (c # cs) =
     (if c = sep then [] # split sep cs
      else (case split sep cs of [] \<Rightarrow> [[c]] | p # ps \<Rightarrow> (c # p) # ps))"

fun join :: "string \<Rightarrow> string list \<Rightarrow> string" where
  "join sep [] = []"
| "join sep [x] = x"
| "join sep (x # y # ys) = x @ sep @ join sep (y # ys)"

text \<open>\<open>s || ""\<close> on an optional string.\<close>

definition or_empty :: "string option \<Rightarrow> string" where
  "or_empty s = (case s of None \<Rightarrow> [] | Some v \<Rightarrow> v)"

text \<open>The \<open>userData\<close> constant of \<open>assignUserToProducts\<close>; \<open>emails[0]\<close> of an empty array is \<open>undefined\<close>.\<close>

definition userData :: "config \<Rightarrow> IProfile \<Rightarrow> IUserData" where
  "userData cfg profile =
     \<lparr>ud_email = (case emails profile of [] \<Rightarrow> None | e # _ \<Rightarrow> Some e),
      ud_firstName = given_name profile,
      ud_lastName = family_name profile,
      ud_oid = oid profile,
      ud_productName = apimProductName cfg,
      ud_groups = split (CHR '','') (or_empty (apimUserGroups cfg))\<rparr>"

text \<open>
  \<open>updateApimUser\<close> comes from the module \<^verbatim>\<open>./account\<close> and is a parameter here: any
  function of the process state that resolves to a subscription or to nothing, or rejects.
\<close>

definition assignUserToProducts ::
  "'e env \<Rightarrow> config \<Rightarrow>
   (string \<Rightarrow> IUserData \<Rightarrow> msi_credentials \<Rightarrow> ('e, SubscriptionContract option) async) \<Rightarrow>
   string \<Rightarrow> IProfile \<Rightarrow> ('e, unit) async" where
  "assignUserToProducts env cfg updateApimUser userId profile =
     await (remote LoginWithAppServiceMSI (loginWithAppServiceMSI env)) (\<lambda>lc.
     await (updateApimUser userId (userData cfg profile) lc) (\<lambda>subscription.
       case subscription of
         None \<Rightarrow> resolve ()
       | Some sub \<Rightarrow>
           if falsy (sub_name sub) then resolve ()
           else
             await (remote (CreateFakeProfile (adminApiKey cfg) (ud_email (userData cfg profile)))
                      (createFakeProfile env (adminApiKey cfg) (ud_email (userData cfg profile))))
               (\<lambda>fakeFiscalCode.
                  let service =
                        \<lparr>authorized_cidrs = [],
                         authorized_recipients = [fakeFiscalCode],
                         department_name = or_empty (extension_Department profile),
                         organization_fiscal_code = ''00000000000'',
                         organization_name = or_empty (extension_Organization profile),
                         service_id = the (sub_name sub),
                         service_name = or_empty (extension_Service profile)\<rparr>;
                      message =
                        \<lparr>markdown =
                           join [CHR 0x0A]
                             [''Hello,'',
                              ''this is a bogus fiscal code you can use to start testing the Digital Citizenship API:''
                                @ [CHR 0x0A],
                              fakeFiscalCode,
                              [CHR 0x0A] @ ''You can start in the developer portal here:'',
                              apimUrl cfg],
                         subject = ''Welcome '' @ ud_firstName (userData cfg profile) @ '' ''
                                     @ ud_lastName (userData cfg profile) @ '' !''\<rparr>
                  in await (remote (UpsertService (adminApiKey cfg) service)
                              (upsertService env (adminApiKey cfg) service))
                       (\<lambda>_. remote (SendMessage (adminApiKey cfg) fakeFiscalCode message)
                               (sendMessage env (adminApiKey cfg) fakeFiscalCode message)))))"

section \<open>An in-memory backend\<close>

text \<open>
  A small backend to run the functions on: users, products, subscriptions and group
  memberships held in lists, a clock that every login call advances, and an identifier
  source that counts its draws.
\<close>

record store =
  st_now :: int
  st_draws :: nat
  st_users :: "UserContract list"
  st_products :: "(string \<times> ProductContract) list"
  st_subscriptions :: "(string \<times> SubscriptionContract) list"
  st_memberships :: "(string \<times> string) list"

definition store_env :: "store env" where
  "store_env =
     \<lparr>Date_now = st_now,
      ulid = (\<lambda>s. (''01D'' @ replicate (st_draws s) (CHR ''Z''), s\<lparr>st_draws := Suc (st_draws s)\<rparr>)),
      loginWithAppServiceMSI = (\<lambda>s. (Resolved ''msi'', s\<lparr>st_now := st_now s + 250\<rparr>)),
      getToken_cb = (\<lambda>lc s. (Resolved (''token-'' @ lc), s\<lparr>st_now := st_now s + 250\<rparr>)),
      subscription_get = (\<lambda>sid s.
        case map_of (st_subscriptions s) sid of
          None \<Rightarrow> (Rejected ''ResourceNotFound'', s)
        | Some x \<Rightarrow> (Resolved x, s)),
      subscription_regeneratePrimaryKey = (\<lambda>sid s.
        case map_of (st_subscriptions s) sid of
          None \<Rightarrow> (Rejected ''ResourceNotFound'', s)
        | Some x \<Rightarrow>
            (Resolved (),
             s\<lparr>st_subscriptions :=
                 (sid, x\<lparr>sub_primaryKey := sub_primaryKey x @ ''*''\<rparr>) # st_subscriptions s\<rparr>)),
      subscription_regenerateSecondaryKey = (\<lambda>sid s.
        case map_of (st_subscriptions s) sid of
          None \<Rightarrow> (Rejected ''ResourceNotFound'', s)
        | Some x \<Rightarrow>
            (Resolved (),
             s\<lparr>st_subscriptions :=
                 (sid, x\<lparr>sub_secondaryKey := sub_secondaryKey x @ ''*''\<rparr>) # st_subscriptions s\<rparr>)),
      subscription_createOrUpdate = (\<lambda>sid p s.
        let x = \<lparr>sub_name = Some sid, sub_userId = new_userId p, sub_productId = new_productId p,
                 sub_state = new_state p, sub_displayName = Some (new_displayName p),
                 sub_primaryKey = ''pk'', sub_secondaryKey = ''sk''\<rparr>
        in (Resolved x, s\<lparr>st_subscriptions := (sid, x) # st_subscriptions s\<rparr>)),
      userSubscription_list = (\<lambda>u s.
        (Resolved (filter (\<lambda>x. sub_userId x = u) (map snd (st_subscriptions s))), s)),
      user_listByService = (\<lambda>f s.
        (Resolved (Some (filter
           (\<lambda>u. f = email_filter (or_empty (user_email u)))
           (st_users s))), s)),
      product_get = (\<lambda>n s. (Resolved (map_of (st_products s) n), s)),
      userGroup_list = (\<lambda>u s.
        (Resolved (map (\<lambda>m. \<lparr>group_name = Some (snd m), group_displayName = snd m\<rparr>)
                     (filter (\<lambda>m. fst m = u) (st_memberships s))), s)),
      groupUser_create = (\<lambda>g u s. (Resolved (), s\<lparr>st_memberships := st_memberships s @ [(u, g)]\<rparr>)),
      createFakeProfile = (\<lambda>k e s. (Resolved ''AAAAAA00A00A000A'', s)),
      upsertService = (\<lambda>k v s. (Resolved (), s)),
      sendMessage = (\<lambda>k r m s. (Resolved (), s))\<rparr>"

text \<open>
  Another actor changes the outside while a key regeneration call of ours is in flight.
\<close>

definition meanwhile :: "('e \<Rightarrow> 'e) \<Rightarrow> 'e env \<Rightarrow> 'e env" where
  "meanwhile act env =
     env\<lparr>subscription_regeneratePrimaryKey :=
            (\<lambda>sid e. subscription_regeneratePrimaryKey env sid (act e)),
         subscription_regenerateSecondaryKey :=
            (\<lambda>sid e. subscription_regenerateSecondaryKey env sid (act e))\<rparr>"

definition start :: "'e \<Rightarrow> 'e world" where
  "start e = \<lparr>ext = e, calls = [], apimUserCache = Map.empty\<rparr>"

text \<open>
  A sample backend: the product \<open>plan-A\<close>; the user \<open>u1\<close> (Ada), member of \<open>g1\<close> and
  owner of two subscriptions, of which \<open>s2\<close> carries no name; and a directory entry
  without a name (Bob).
\<close>

definition ada :: UserContract where
  "ada = \<lparr>user_id = Some ''/users/u1'', user_name = Some ''u1'',
          user_email = Some ''ada@example.org'', user_firstName = Some ''Ada'',
          user_lastName = Some ''Lovelace''\<rparr>"

definition bob :: UserContract where
  "bob = \<lparr>user_id = Some ''/users/u2'', user_name = None,
          user_email = Some ''bob@example.org'', user_firstName = Some ''Bob'',
          user_lastName = None\<rparr>"

definition sub1 :: SubscriptionContract where
  "sub1 = \<lparr>sub_name = Some ''s1'', sub_userId = ''u1'', sub_productId = ''prod-1'',
           sub_state = ''active'', sub_displayName = Some ''s1'',
           sub_primaryKey = ''pk'', sub_secondaryKey = ''sk''\<rparr>"

definition sub2 :: SubscriptionContract where
  "sub2 = \<lparr>sub_name = None, sub_userId = ''u1'', sub_productId = ''prod-1'',
           sub_state = ''active'', sub_displayName = None,
           sub_primaryKey = ''pk'', sub_secondaryKey = ''sk''\<rparr>"

definition sample :: store where
  "sample =
     \<lparr>st_now = 1000, st_draws = 0, st_users = [ada, bob],
      st_products = [(''plan-A'', \<lparr>product_id = Some ''prod-1'', product_displayName = ''Plan A''\<rparr>)],
      st_subscriptions = [(''s1'', sub1), (''s2'', sub2)],
      st_memberships = [(''u1'', ''g1'')]\<rparr>"

text \<open>The other actor's move: the subscription \<open>s1\<close> passes to the user \<open>u2\<close>.\<close>

definition transfer :: "store \<Rightarrow> store" where
  "transfer s =
     s\<lparr>st_subscriptions := (''s1'', sub1\<lparr>sub_userId := ''u2''\<rparr>) # st_subscriptions s\<rparr>"

text \<open>
  An identifier generator that yields the same identifier again, as \<open>ulid()\<close> does when two
  draws fall in the same millisecond and the random source repeats itself.
\<close>

definition repeating :: "'e env \<Rightarrow> 'e env" where
  "repeating env = env\<lparr>ulid := (\<lambda>e. (''01ARZ3NDEKTSV4RRFFQ69G5FAV'', e))\<rparr>"


definition sample_config :: config where
  "sample_config =
     \<lparr>apimUserGroups = Some ''g1,g2,g3'', apimProductName = ''plan-A'',
      adminApiKey = ''key'', apimUrl = ''https://portal.example.org''\<rparr>"

definition sample_profile :: IProfile where
  "sample_profile =
     \<lparr>emails = [''ada@example.org''], given_name = ''Ada'', family_name = ''Lovelace'',
      oid = ''oid-1'', extension_Department = None, extension_Organization = Some ''Org'',
      extension_Service = None\<rparr>"

text \<open>A stand-in for \<open>updateApimUser\<close> that resolves to the subscription \<open>s2\<close> as fetched.\<close>

definition fetch_s2 ::
  "string \<Rightarrow> IUserData \<Rightarrow> msi_credentials \<Rightarrow> (store, SubscriptionContract option) async" where
  "fetch_s2 userId data lc =
     await (remote (SubscriptionGet ''s2'') (subscription_get store_env ''s2''))
       (\<lambda>s. resolve (Some s))"

section \<open>Properties\<close>

subsection \<open>Unfolding the definitions\<close>

lemmas store_defs = store_env_def sample_def start_def ada_def bob_def sub1_def sub2_def
  transfer_def meanwhile_def repeating_def email_filter_def or_empty_def falsy_def

lemmas cache_defs = getApimUser_def apimUserCache_get_def Object_prototype_keys_def

lemmas run_defs = await_def remote_def resolve_def draw_def

lemma getUserSubscription_eq:
  "subscription_get env sid (ext w) = (Resolved s, e') \<Longrightarrow>
   getUserSubscription env sid uid w =
     (Resolved (if sub_userId s \<noteq> uid \<or> falsy (sub_name s) then None else Some s),
      w\<lparr>ext := e', calls := calls w @ [SubscriptionGet sid]\<rparr>)"
  by (simp add: getUserSubscription_def await_def remote_def resolve_def)

lemma getApimUser_miss_calls:
  "apimUserCache_get (apimUserCache w) email = None \<Longrightarrow>
   calls (snd (getApimUser env email w)) = calls w @ [UserListByService (email_filter email)]"
  by (auto simp add: getApimUser_def run_defs Let_def
      split: prod.splits promise.splits option.splits list.splits)

lemma apimUserCache_get_miss:
  "(apimUserCache_get cache email = None) =
     (cache email = None \<and> email \<notin> set Object_prototype_keys)"
  by (simp add: apimUserCache_get_def split: option.splits)

lemma getApimUser_absent:
  "getApimUser env email w = (Resolved None, w') \<Longrightarrow>
   apimUserCache w' = apimUserCache w \<and> apimUserCache_get (apimUserCache w) email = None"
  by (auto simp add: getApimUser_def run_defs Let_def
      split: prod.splits promise.splits option.splits list.splits if_splits)

lemma getApimUser_cache_entries:
  "apimUserCache (snd (getApimUser env email w)) k = Some u \<Longrightarrow>
   apimUserCache w k = Some u \<or>
   (\<exists>user. \<not> falsy (user_id user) \<and> \<not> falsy (user_name user) \<and>
      u = \<lparr>apim_id = the (user_id user), apim_name = the (user_name user), apim_contract = user\<rparr>)"
  by (auto simp add: getApimUser_def run_defs Let_def
      split: prod.splits promise.splits option.splits list.splits if_splits)

lemma not_falsy_the: "\<not> falsy s \<Longrightarrow> the s \<noteq> []"
  by (cases s) (simp_all add: falsy_def)

lemma addUserToGroups_named:
  "addUserToGroups env (Some u) G w = (Resolved (Inr added), w1) \<Longrightarrow> \<not> falsy (user_name u)"
  by (auto simp add: addUserToGroups_def run_defs)

subsection \<open>Group reconciliation\<close>

text \<open>
  C1. (\<open>addUserToGroups\<close> returns exactly the desired groups that are not current
  memberships.) Evaluated on the sample backend, where \<open>u1\<close> is a member of \<open>g1\<close>, with the
  desired groups \<open>g1, g2, g3\<close>: the missing set \<open>{g2, g3}\<close> is not empty, and the reduce then
  runs over \<open>groups\<close>, not over \<open>missingGroups\<close>. The create call is issued for every desired
  group, \<open>g1\<close> included, one after the other in the order of the list, and the returned list
  is the whole of \<open>groups\<close>, not \<open>[g2, g3]\<close>.
\<close>

theorem addUserToGroups_adds_all:
  "fst (addUserToGroups store_env (Some ada) [''g1'', ''g2'', ''g3''] (start sample)) =
     Resolved (Inr [''g1'', ''g2'', ''g3'']) \<and>
   calls (snd (addUserToGroups store_env (Some ada) [''g1'', ''g2'', ''g3''] (start sample))) =
     [UserGroupList ''u1'', GroupUserCreate ''g1'' ''u1'', GroupUserCreate ''g2'' ''u1'',
      GroupUserCreate ''g3'' ''u1''] \<and>
   st_memberships (ext (snd (addUserToGroups store_env (Some ada) [''g1'', ''g2'', ''g3'']
      (start sample)))) = [(''u1'', ''g1''), (''u1'', ''g1''), (''u1'', ''g2''), (''u1'', ''g3'')]"
  by (simp add: store_defs run_defs addUserToGroups_def addGroup_def Let_def)

text \<open>
  C6. A second \<open>addUserToGroups\<close> for the same user and groups, right after a
  successful first one, when the backend then lists every desired group among the user's
  memberships: it succeeds with the empty list, and the only call it issues is the listing
  of the memberships (no create call).
\<close>

theorem addUserToGroups_second_call:
  "addUserToGroups env (Some u) G w = (Resolved (Inr added), w1) \<and>
   userGroup_list env (the (user_name u)) (ext w1) = (Resolved existing, e2) \<and>
   (\<forall>g \<in> set G. Some g \<in> set (map group_name existing)) \<longrightarrow>
   addUserToGroups env (Some u) G w1 =
     (Resolved (Inr []), w1\<lparr>ext := e2, calls := calls w1 @ [UserGroupList (the (user_name u))]\<rparr>)"
proof (intro impI, elim conjE)
  assume first: "addUserToGroups env (Some u) G w = (Resolved (Inr added), w1)"
    and listed: "userGroup_list env (the (user_name u)) (ext w1) = (Resolved existing, e2)"
    and all: "\<forall>g \<in> set G. Some g \<in> set (map group_name existing)"
  from all have none_missing: "\<not> (\<exists>g. g \<in> set G \<and> Some g \<notin> group_name ` set existing)"
    by auto
  from addUserToGroups_named [OF first] listed none_missing
  show "addUserToGroups env (Some u) G w1 =
     (Resolved (Inr []), w1\<lparr>ext := e2, calls := calls w1 @ [UserGroupList (the (user_name u))]\<rparr>)"
    by (simp add: addUserToGroups_def run_defs Let_def)
qed

text \<open>On the sample backend, which records the memberships the first call creates.\<close>

theorem addUserToGroups_second_call_witness:
  "fst (addUserToGroups store_env (Some ada) [''g2'', ''g3''] (start sample)) =
     Resolved (Inr [''g2'', ''g3'']) \<and>
   fst (addUserToGroups store_env (Some ada) [''g2'', ''g3'']
          (snd (addUserToGroups store_env (Some ada) [''g2'', ''g3''] (start sample)))) =
     Resolved (Inr []) \<and>
   calls (snd (addUserToGroups store_env (Some ada) [''g2'', ''g3'']
          (snd (addUserToGroups store_env (Some ada) [''g2'', ''g3''] (start sample))))) =
     [UserGroupList ''u1'', GroupUserCreate ''g2'' ''u1'', GroupUserCreate ''g3'' ''u1'',
      UserGroupList ''u1'']"
  using addUserToGroups_second_call [where env = store_env and u = ada and G = "[''g2'', ''g3'']"
      and w = "start sample" and added = "[''g2'', ''g3'']"
      and ?w1.0 = "snd (addUserToGroups store_env (Some ada) [''g2'', ''g3''] (start sample))"
      and existing = "[\<lparr>group_name = Some ''g1'', group_displayName = ''g1''\<rparr>,
                      \<lparr>group_name = Some ''g2'', group_displayName = ''g2''\<rparr>,
                      \<lparr>group_name = Some ''g3'', group_displayName = ''g3''\<rparr>]"]
  by (simp add: store_defs run_defs addUserToGroups_def addGroup_def Let_def)

subsection \<open>Credentials\<close>

text \<open>
  C3. \<open>loginToApim\<close>. A credential whose expiry is strictly after the current time
  is returned as it is, and the process state, the trace of calls included, is unchanged.
  With no credential, or one whose expiry is at or before the current time, exactly one
  login call is issued, followed by one token call unless the login rejects; a credential
  that is returned carries the expiry read from the clock after the token call plus one
  hour, which is strictly after the time of the call as long as the clock has not run
  backwards in between; and when the login and the token call both resolve, a credential
  is returned.
\<close>

theorem loginToApim_reuse_or_refresh:
  "(tokenCreds = Some tc \<and> Date_now env (ext w) < expiresOn tc \<longrightarrow>
      loginToApim env tokenCreds w = (Resolved tc, w))
   \<and> ((tokenCreds = None \<or> (tokenCreds = Some tc \<and> expiresOn tc \<le> Date_now env (ext w))) \<longrightarrow>
      (case loginToApim env tokenCreds w of
         (Rejected err, w') \<Rightarrow>
           calls w' = calls w @ [LoginWithAppServiceMSI] \<or>
           (\<exists>lc. calls w' = calls w @ [LoginWithAppServiceMSI, GetToken lc])
       | (Resolved cred, w') \<Rightarrow>
           calls w' = calls w @ [LoginWithAppServiceMSI, GetToken (loginCreds cred)] \<and>
           expiresOn cred = Date_now env (ext w') + 3600 * 1000 \<and>
           (Date_now env (ext w) \<le> Date_now env (ext w') \<longrightarrow>
              Date_now env (ext w) < expiresOn cred)))
   \<and> ((tokenCreds = None \<or> (tokenCreds = Some tc \<and> expiresOn tc \<le> Date_now env (ext w))) \<and>
       loginWithAppServiceMSI env (ext w) = (Resolved lc, e1) \<and>
       getToken_cb env lc e1 = (Resolved tok, e2) \<longrightarrow>
      loginToApim env tokenCreds w =
        (Resolved \<lparr>token = tok, loginCreds = lc, expiresOn = Date_now env e2 + 3600 * 1000\<rparr>,
         w\<lparr>ext := e2, calls := calls w @ [LoginWithAppServiceMSI, GetToken lc]\<rparr>))"
  by (auto simp add: loginToApim_def getToken_def run_defs
      split: promise.splits prod.splits option.splits bool.splits)

text \<open>A credential that expires in one millisecond is reused; one that expires now is replaced.\<close>

theorem loginToApim_reuse_or_refresh_witness:
  "loginToApim store_env (Some \<lparr>token = ''t'', loginCreds = ''c'', expiresOn = 1001\<rparr>) (start sample) =
     (Resolved \<lparr>token = ''t'', loginCreds = ''c'', expiresOn = 1001\<rparr>, start sample) \<and>
   fst (loginToApim store_env (Some \<lparr>token = ''t'', loginCreds = ''c'', expiresOn = 1000\<rparr>)
          (start sample)) =
     Resolved \<lparr>token = ''token-msi'', loginCreds = ''msi'', expiresOn = 3601500\<rparr> \<and>
   calls (snd (loginToApim store_env (Some \<lparr>token = ''t'', loginCreds = ''c'', expiresOn = 1000\<rparr>)
          (start sample))) = [LoginWithAppServiceMSI, GetToken ''msi'']"
  using loginToApim_reuse_or_refresh [where env = store_env and w = "start sample"
      and tokenCreds = "Some \<lparr>token = ''t'', loginCreds = ''c'', expiresOn = 1001\<rparr>"
      and tc = "\<lparr>token = ''t'', loginCreds = ''c'', expiresOn = 1001\<rparr>"]
    loginToApim_reuse_or_refresh [where env = store_env and w = "start sample"
      and tokenCreds = "Some \<lparr>token = ''t'', loginCreds = ''c'', expiresOn = 1000\<rparr>"
      and tc = "\<lparr>token = ''t'', loginCreds = ''c'', expiresOn = 1000\<rparr>"
      and lc = "''msi''" and tok = "''token-msi''"
      and ?e1.0 = "sample\<lparr>st_now := 1250\<rparr>" and ?e2.0 = "sample\<lparr>st_now := 1500\<rparr>"]
  by (simp add: store_defs)

subsection \<open>The user cache\<close>




text \<open>
  C8. (amended) When a \<open>getApimUser\<close> call returns a user, the next call for the same
  email, with no cache clear in between, returns the same user, leaves the process state as
  it is (no call is issued), and the first call has issued at most one directory query.
\<close>

theorem getApimUser_second_lookup:
  "getApimUser env email w = (Resolved (Some u), w1) \<longrightarrow>
     getApimUser env email w1 = (Resolved (Some u), w1) \<and>
     (calls w1 = calls w \<or> calls w1 = calls w @ [UserListByService (email_filter email)])"
  by (auto simp add: getApimUser_def apimUserCache_get_def run_defs Let_def
      split: option.splits list.splits promise.splits prod.splits if_splits)

text \<open>Two lookups of Ada: one query in all.\<close>

theorem getApimUser_second_lookup_witness:
  "calls (snd (getApimUser store_env ''ada@example.org''
                 (snd (getApimUser store_env ''ada@example.org'' (start sample))))) =
     [UserListByService (email_filter ''ada@example.org'')] \<and>
   fst (getApimUser store_env ''ada@example.org''
          (snd (getApimUser store_env ''ada@example.org'' (start sample)))) =
     Resolved (Some (User \<lparr>apim_id = ''/users/u1'', apim_name = ''u1'', apim_contract = ada\<rparr>))"
  using getApimUser_second_lookup [where env = store_env and w = "start sample"
      and email = "''ada@example.org''"
      and u = "User \<lparr>apim_id = ''/users/u1'', apim_name = ''u1'', apim_contract = ada\<rparr>"
      and ?w1.0 = "snd (getApimUser store_env ''ada@example.org'' (start sample))"]
  by (simp add: store_defs run_defs cache_defs Let_def)

text \<open>
  The claim as stated (at most one query for any two consecutive calls) fails when the first
  lookup finds nobody: nothing is cached and the second call queries again.
\<close>

theorem getApimUser_two_queries_counterexample:
  "calls (snd (getApimUser store_env ''nobody@example.org''
                 (snd (getApimUser store_env ''nobody@example.org'' (start sample))))) =
     [UserListByService (email_filter ''nobody@example.org''),
      UserListByService (email_filter ''nobody@example.org'')]"
  by (simp add: store_defs run_defs cache_defs Let_def)

text \<open>
  C9. Negative lookups are not cached. When \<open>getApimUser\<close> returns absent, the cache
  is the one it started from and has no entry for the email, and the next call for that
  email issues a directory query. Whatever a call returns, if every cached entry had a
  non-empty id and a non-empty name before, every cached entry has them after.
\<close>

theorem getApimUser_negative_not_cached:
  "(getApimUser env email w = (Resolved None, w') \<longrightarrow>
      apimUserCache w' = apimUserCache w \<and> apimUserCache w' email = None \<and>
      calls (snd (getApimUser env email w')) =
        calls w' @ [UserListByService (email_filter email)])
   \<and> ((\<forall>k u. apimUserCache w k = Some u \<longrightarrow> apim_id u \<noteq> [] \<and> apim_name u \<noteq> []) \<longrightarrow>
      (\<forall>k u. apimUserCache (snd (getApimUser env email w)) k = Some u \<longrightarrow>
         apim_id u \<noteq> [] \<and> apim_name u \<noteq> []))"
proof (intro conjI impI allI)
  assume a: "getApimUser env email w = (Resolved None, w')"
  from getApimUser_absent [OF a] show "apimUserCache w' = apimUserCache w" by simp
  from getApimUser_absent [OF a] have miss: "apimUserCache_get (apimUserCache w') email = None"
    by simp
  then show "apimUserCache w' email = None" by (simp add: apimUserCache_get_miss)
  from getApimUser_miss_calls [OF miss]
  show "calls (snd (getApimUser env email w')) =
        calls w' @ [UserListByService (email_filter email)]" .
next
  fix k u
  assume inv: "\<forall>k u. apimUserCache w k = Some u \<longrightarrow> apim_id u \<noteq> [] \<and> apim_name u \<noteq> []"
    and e: "apimUserCache (snd (getApimUser env email w)) k = Some u"
  from getApimUser_cache_entries [OF e] inv
  show "apim_id u \<noteq> []" by (auto dest: not_falsy_the)
  from getApimUser_cache_entries [OF e] inv
  show "apim_name u \<noteq> []" by (auto dest: not_falsy_the)
qed

text \<open>Bob is looked up twice, with two queries; Ada is cached with her id and name.\<close>

theorem getApimUser_negative_not_cached_witness:
  "getApimUser store_env ''bob@example.org'' (start sample) =
     (Resolved None,
      (start sample)\<lparr>calls := [UserListByService (email_filter ''bob@example.org'')]\<rparr>) \<and>
   calls (snd (getApimUser store_env ''bob@example.org''
      ((start sample)\<lparr>calls := [UserListByService (email_filter ''bob@example.org'')]\<rparr>))) =
     [UserListByService (email_filter ''bob@example.org''),
      UserListByService (email_filter ''bob@example.org'')] \<and>
   apimUserCache (snd (getApimUser store_env ''ada@example.org'' (start sample)))
     ''ada@example.org'' =
     Some \<lparr>apim_id = ''/users/u1'', apim_name = ''u1'', apim_contract = ada\<rparr> \<and>
   apim_id (the (apimUserCache (snd (getApimUser store_env ''ada@example.org'' (start sample)))
     ''ada@example.org'')) \<noteq> [] \<and>
   apim_name (the (apimUserCache (snd (getApimUser store_env ''ada@example.org'' (start sample)))
     ''ada@example.org'')) \<noteq> []"
proof -
  have absent: "getApimUser store_env ''bob@example.org'' (start sample) =
     (Resolved None,
      (start sample)\<lparr>calls := [UserListByService (email_filter ''bob@example.org'')]\<rparr>)"
    by (simp add: store_defs run_defs cache_defs Let_def)
  have stored: "apimUserCache (snd (getApimUser store_env ''ada@example.org'' (start sample)))
     ''ada@example.org'' =
     Some \<lparr>apim_id = ''/users/u1'', apim_name = ''u1'', apim_contract = ada\<rparr>"
    by (simp add: store_defs run_defs cache_defs Let_def)
  have initially: "\<forall>k u. apimUserCache (start sample) k = Some u \<longrightarrow>
      apim_id u \<noteq> [] \<and> apim_name u \<noteq> []"
    by (simp add: start_def)
  from getApimUser_negative_not_cached [where env = store_env and w = "start sample"
      and email = "''bob@example.org''"
      and w' = "(start sample)\<lparr>calls := [UserListByService (email_filter ''bob@example.org'')]\<rparr>"]
    absent
  have again: "calls (snd (getApimUser store_env ''bob@example.org''
      ((start sample)\<lparr>calls := [UserListByService (email_filter ''bob@example.org'')]\<rparr>))) =
     [UserListByService (email_filter ''bob@example.org''),
      UserListByService (email_filter ''bob@example.org'')]"
    by simp
  from getApimUser_negative_not_cached [where env = store_env and w = "start sample"
      and email = "''ada@example.org''"] initially
  have kept: "\<forall>k u.
      apimUserCache (snd (getApimUser store_env ''ada@example.org'' (start sample))) k = Some u
      \<longrightarrow> apim_id u \<noteq> [] \<and> apim_name u \<noteq> []"
    by blast
  from kept stored
  have nonempty: "apim_id (the (apimUserCache
      (snd (getApimUser store_env ''ada@example.org'' (start sample))) ''ada@example.org'')) \<noteq> [] \<and>
    apim_name (the (apimUserCache
      (snd (getApimUser store_env ''ada@example.org'' (start sample))) ''ada@example.org'')) \<noteq> []"
    by (metis option.sel)
  from absent again stored nonempty show ?thesis by blast
qed

subsection \<open>Subscriptions\<close>




text \<open>
  C5. (amended) \<open>regeneratePrimaryKey\<close> and \<open>regenerateSecondaryKey\<close>, when the
  subscription is fetched. If its owner is not the given user, or it has no name, absent is
  returned and the fetch is the only call issued. If the owner is the given user and the
  subscription has a name, the regeneration call is issued, and the result is that of a
  second ownership-checked fetch (a rejection of the regeneration call is passed on).
\<close>

theorem regenerate_key_authorization:
  "(subscription_get env sid (ext w) = (Resolved s, e1) \<and>
      (sub_userId s \<noteq> uid \<or> falsy (sub_name s)) \<longrightarrow>
      regeneratePrimaryKey env sid uid w =
        (Resolved None, w\<lparr>ext := e1, calls := calls w @ [SubscriptionGet sid]\<rparr>) \<and>
      regenerateSecondaryKey env sid uid w =
        (Resolved None, w\<lparr>ext := e1, calls := calls w @ [SubscriptionGet sid]\<rparr>))
   \<and> (subscription_get env sid (ext w) = (Resolved s, e1) \<and>
      sub_userId s = uid \<and> \<not> falsy (sub_name s) \<longrightarrow>
      (subscription_regeneratePrimaryKey env sid e1 = (r, e2) \<longrightarrow>
         regeneratePrimaryKey env sid uid w =
           (case r of
              Rejected err \<Rightarrow>
                (Rejected err,
                 w\<lparr>ext := e2,
                   calls := calls w @ [SubscriptionGet sid, SubscriptionRegeneratePrimaryKey sid]\<rparr>)
            | Resolved _ \<Rightarrow>
                getUserSubscription env sid uid
                  (w\<lparr>ext := e2,
                     calls := calls w @ [SubscriptionGet sid, SubscriptionRegeneratePrimaryKey sid]\<rparr>))) \<and>
      (subscription_regenerateSecondaryKey env sid e1 = (r, e2) \<longrightarrow>
         regenerateSecondaryKey env sid uid w =
           (case r of
              Rejected err \<Rightarrow>
                (Rejected err,
                 w\<lparr>ext := e2,
                   calls := calls w @ [SubscriptionGet sid, SubscriptionRegenerateSecondaryKey sid]\<rparr>)
            | Resolved _ \<Rightarrow>
                getUserSubscription env sid uid
                  (w\<lparr>ext := e2,
                     calls := calls w @ [SubscriptionGet sid, SubscriptionRegenerateSecondaryKey sid]\<rparr>))))"
  by (auto simp add: regeneratePrimaryKey_def regenerateSecondaryKey_def getUserSubscription_eq
      await_def remote_def resolve_def split: promise.splits)

text \<open>A stranger asks for the keys of \<open>s1\<close>; then its owner does.\<close>

theorem regenerate_key_authorization_witness:
  "regeneratePrimaryKey store_env ''s1'' ''u9'' (start sample) =
     (Resolved None, (start sample)\<lparr>calls := [SubscriptionGet ''s1'']\<rparr>) \<and>
   calls (snd (regeneratePrimaryKey store_env ''s1'' ''u1'' (start sample))) =
     [SubscriptionGet ''s1'', SubscriptionRegeneratePrimaryKey ''s1'', SubscriptionGet ''s1''] \<and>
   fst (regenerateSecondaryKey store_env ''s1'' ''u1'' (start sample)) =
     Resolved (Some (sub1\<lparr>sub_secondaryKey := ''sk*''\<rparr>))"
  using regenerate_key_authorization [where env = store_env and sid = "''s1''" and uid = "''u9''"
      and w = "start sample" and s = sub1 and ?e1.0 = sample]
    regenerate_key_authorization [where env = store_env and sid = "''s1''" and uid = "''u1''"
      and w = "start sample" and s = sub1 and ?e1.0 = sample and r = "Resolved ()"
      and ?e2.0 = "sample\<lparr>st_subscriptions :=
          (''s1'', sub1\<lparr>sub_primaryKey := ''pk*''\<rparr>) # st_subscriptions sample\<rparr>"]
  by (simp add: store_defs run_defs getUserSubscription_def regeneratePrimaryKey_def
      regenerateSecondaryKey_def)

text \<open>
  The claim as stated (the regeneration call is issued whenever the owner matches) fails on
  the subscription \<open>s2\<close>, which belongs to \<open>u1\<close> and has no name.
\<close>

theorem regenerate_key_nameless_counterexample:
  "sub_userId sub2 = ''u1'' \<and>
   regeneratePrimaryKey store_env ''s2'' ''u1'' (start sample) =
     (Resolved None, (start sample)\<lparr>calls := [SubscriptionGet ''s2'']\<rparr>)"
  by (simp add: store_defs run_defs getUserSubscription_def regeneratePrimaryKey_def)

text \<open>
  C10. The absent result of \<open>regeneratePrimaryKey\<close> and \<open>regenerateSecondaryKey\<close>
  does not tell whether the keys were regenerated: when the first fetch passes the ownership
  check, the regeneration call resolves, and the second fetch then shows another owner or no
  name, the function returns absent after having issued the regeneration call.
\<close>

theorem regenerate_key_absent_after_regeneration:
  "subscription_get env sid (ext w) = (Resolved s, e1) \<and> sub_userId s = uid \<and>
   \<not> falsy (sub_name s) \<and>
   subscription_get env sid e2 = (Resolved s', e3) \<and>
   (sub_userId s' \<noteq> uid \<or> falsy (sub_name s')) \<longrightarrow>
     (subscription_regeneratePrimaryKey env sid e1 = (Resolved (), e2) \<longrightarrow>
        regeneratePrimaryKey env sid uid w =
          (Resolved None,
           w\<lparr>ext := e3,
             calls := calls w @ [SubscriptionGet sid, SubscriptionRegeneratePrimaryKey sid,
                                 SubscriptionGet sid]\<rparr>)) \<and>
     (subscription_regenerateSecondaryKey env sid e1 = (Resolved (), e2) \<longrightarrow>
        regenerateSecondaryKey env sid uid w =
          (Resolved None,
           w\<lparr>ext := e3,
             calls := calls w @ [SubscriptionGet sid, SubscriptionRegenerateSecondaryKey sid,
                                 SubscriptionGet sid]\<rparr>))"
  by (auto simp add: regeneratePrimaryKey_def regenerateSecondaryKey_def getUserSubscription_eq
      await_def remote_def resolve_def)

text \<open>
  Such an execution: \<open>s1\<close> passes to \<open>u2\<close> while the regeneration call is in flight. The
  result is absent and the primary key has changed.
\<close>

theorem regenerate_key_absent_after_regeneration_witness:
  "fst (regeneratePrimaryKey (meanwhile transfer store_env) ''s1'' ''u1'' (start sample)) =
     Resolved None \<and>
   calls (snd (regeneratePrimaryKey (meanwhile transfer store_env) ''s1'' ''u1'' (start sample))) =
     [SubscriptionGet ''s1'', SubscriptionRegeneratePrimaryKey ''s1'', SubscriptionGet ''s1''] \<and>
   map (sub_primaryKey \<circ> snd)
     (st_subscriptions
        (ext (snd (regeneratePrimaryKey (meanwhile transfer store_env) ''s1'' ''u1''
                     (start sample))))) =
     [''pk*'', ''pk'', ''pk'', ''pk'']"
  using regenerate_key_absent_after_regeneration [where env = "meanwhile transfer store_env"
      and sid = "''s1''" and uid = "''u1''" and w = "start sample" and s = sub1
      and ?e1.0 = sample and s' = "sub1\<lparr>sub_userId := ''u2'', sub_primaryKey := ''pk*''\<rparr>"
      and ?e2.0 = "sample\<lparr>st_subscriptions :=
          [(''s1'', sub1\<lparr>sub_userId := ''u2'', sub_primaryKey := ''pk*''\<rparr>),
           (''s1'', sub1\<lparr>sub_userId := ''u2''\<rparr>), (''s1'', sub1), (''s2'', sub2)]\<rparr>"
      and ?e3.0 = "sample\<lparr>st_subscriptions :=
          [(''s1'', sub1\<lparr>sub_userId := ''u2'', sub_primaryKey := ''pk*''\<rparr>),
           (''s1'', sub1\<lparr>sub_userId := ''u2''\<rparr>), (''s1'', sub1), (''s2'', sub2)]\<rparr>"]
  by (simp add: store_defs run_defs getUserSubscription_def regeneratePrimaryKey_def)

subsection \<open>The orchestrator\<close>

text \<open>
  C7. In \<open>assignUserToProducts\<close>, when the login resolves and \<open>updateApimUser\<close>
  resolves to no subscription, or to one without a name, the run resolves (no error) in the
  very state \<open>updateApimUser\<close> left: none of the calls to \<open>createFakeProfile\<close>,
  \<open>upsertService\<close> and \<open>sendMessage\<close> is issued.
\<close>

theorem assignUserToProducts_silent:
  "loginWithAppServiceMSI env (ext w) = (Resolved lc, e1) \<and>
   updateApimUser userId (userData cfg profile) lc
     (w\<lparr>ext := e1, calls := calls w @ [LoginWithAppServiceMSI]\<rparr>) = (Resolved subscription, w2) \<and>
   (subscription = None \<or> (\<exists>s. subscription = Some s \<and> falsy (sub_name s))) \<longrightarrow>
   assignUserToProducts env cfg updateApimUser userId profile w = (Resolved (), w2)"
  by (auto simp add: assignUserToProducts_def run_defs)

text \<open>With a stand-in that resolves to the nameless subscription \<open>s2\<close>.\<close>

theorem assignUserToProducts_silent_witness:
  "assignUserToProducts store_env sample_config fetch_s2 ''u1'' sample_profile (start sample) =
     (Resolved (),
      \<lparr>ext = sample\<lparr>st_now := 1250\<rparr>, calls = [LoginWithAppServiceMSI, SubscriptionGet ''s2''],
       apimUserCache = Map.empty\<rparr>)"
  using assignUserToProducts_silent [where env = store_env and w = "start sample"
      and lc = "''msi''" and ?e1.0 = "sample\<lparr>st_now := 1250\<rparr>" and updateApimUser = fetch_s2
      and userId = "''u1''" and cfg = sample_config and profile = sample_profile
      and subscription = "Some sub2"
      and ?w2.0 = "\<lparr>ext = sample\<lparr>st_now := 1250\<rparr>,
                     calls = [LoginWithAppServiceMSI, SubscriptionGet ''s2''],
                     apimUserCache = Map.empty\<rparr>"]
  by (simp add: store_defs run_defs fetch_s2_def)

end
